theory Spec2Isabelle
  imports Complex_Main "HOL-Library.AList" "HOL-Library.Multiset" "HOL-Library.Product_Lexorder"
begin

section \<open>JavaScript values\<close>

text \<open>
  The handler \<^verbatim>\<open>errorHandler(err: any, req, res, next)\<close> of
  \<^verbatim>\<open>server/middleware/errorHandler.ts\<close> takes an arbitrary JavaScript value as its
  error. The values are modelled by one datatype. A number is a rational (every finite
  double is one; \<open>-0\<close> is \<open>0\<close>), \<open>NaN\<close> or an infinity (\<open>JInfinity True\<close> is the
  positive one). An object
  is the association list of the properties a read can see, own or inherited, in
  insertion order. An instance of the class \<^verbatim>\<open>AppError\<close> (or of a subclass) is the
  constructor \<open>JAppError\<close>: its five declared fields with their declared TypeScript
  types (\<^verbatim>\<open>status: number\<close>, here a finite one, \<^verbatim>\<open>title\<close>, \<^verbatim>\<open>detail\<close>,
  \<^verbatim>\<open>type: string\<close>, \<^verbatim>\<open>extra?: Record<string, any>\<close>), followed by every other
  property of the instance (\<^verbatim>\<open>name\<close>, \<^verbatim>\<open>message\<close>, and whatever a subclass or a
  caller adds). A status that is not a finite number, or no number at all, reaches the
  handler through \<^verbatim>\<open>extra\<close>.
\<close>

datatype jsval =
    JUndefined
  | JNull
  | JBool bool
  | JNum rat
  | JNaN
  | JInfinity bool
  | JStr string
  | JArr "jsval list"
  | JObj "(string \<times> jsval) list"
  | JAppError rat string string string "(string \<times> jsval) list option" "(string \<times> jsval) list"

type_synonym object = "(string \<times> jsval) list"

text \<open>
  What can be thrown: a TypeError, a RangeError (Node's
  \<^verbatim>\<open>ERR_HTTP_INVALID_STATUS_CODE\<close> is one), and Node's \<^verbatim>\<open>ERR_HTTP_HEADERS_SENT\<close>.
\<close>

datatype js_error = TypeError | RangeError | ERR_HTTP_HEADERS_SENT

text \<open>Reading a property of an object: \<^verbatim>\<open>undefined\<close> when the property is missing.\<close>

definition obj_get :: "object \<Rightarrow> string \<Rightarrow> jsval" where
  "obj_get ps k = (case map_of ps k of None \<Rightarrow> JUndefined | Some v \<Rightarrow> v)"

text \<open>
  \<^verbatim>\<open>err.k\<close> for an arbitrary value: reading a property of \<^verbatim>\<open>undefined\<close> or
  \<^verbatim>\<open>null\<close> throws a TypeError. The handler reads only \<^verbatim>\<open>name\<close>,
  \<^verbatim>\<open>validation\<close>, \<^verbatim>\<open>details\<close> and \<^verbatim>\<open>code\<close> of a value that is not an AppError;
  primitives and arrays have none of these, so the read gives \<^verbatim>\<open>undefined\<close>.
\<close>

fun get_prop :: "jsval \<Rightarrow> string \<Rightarrow> js_error + jsval" where
  "get_prop JUndefined k = Inl TypeError"
| "get_prop JNull k = Inl TypeError"
| "get_prop (JObj ps) k = Inr (obj_get ps k)"
| "get_prop (JAppError st ti de ty ex ot) k = Inr
     (if k = ''status'' then JNum st
      else if k = ''title'' then JStr ti
      else if k = ''detail'' then JStr de
      else if k = ''type'' then JStr ty
      else if k = ''extra'' then (case ex of None \<Rightarrow> JUndefined | Some e \<Rightarrow> JObj e)
      else obj_get ot k)"
| "get_prop (JBool b) k = Inr JUndefined"
| "get_prop (JNum n) k = Inr JUndefined"
| "get_prop JNaN k = Inr JUndefined"
| "get_prop (JInfinity p) k = Inr JUndefined"
| "get_prop (JStr s) k = Inr JUndefined"
| "get_prop (JArr xs) k = Inr JUndefined"

text \<open>JavaScript truthiness, as used by \<^verbatim>\<open>||\<close> and by the conditions of \<^verbatim>\<open>if\<close>.\<close>

fun truthy :: "jsval \<Rightarrow> bool" where
  "truthy JUndefined = False"
| "truthy JNull = False"
| "truthy (JBool b) = b"
| "truthy (JNum n) = (n \<noteq> 0)"
| "truthy JNaN = False"
| "truthy (JInfinity p) = True"
| "truthy (JStr s) = (s \<noteq> [])"
| "truthy (JArr xs) = True"
| "truthy (JObj ps) = True"
| "truthy (JAppError st ti de ty ex ot) = True"

text \<open>\<^verbatim>\<open>err instanceof AppError\<close>.\<close>

fun instanceof_AppError :: "jsval \<Rightarrow> bool" where
  "instanceof_AppError (JAppError st ti de ty ex ot) = True"
| "instanceof_AppError v = False"

text \<open>
  The constructor of the class: \<^verbatim>\<open>type\<close> defaults to \<^verbatim>\<open>'about:blank'\<close> when the
  argument is omitted, \<^verbatim>\<open>super(detail)\<close> sets the message and the body sets the name.
\<close>

definition AppError :: "rat \<Rightarrow> string \<Rightarrow> string \<Rightarrow> string option \<Rightarrow> object option \<Rightarrow> jsval" where
  "AppError st ti de ty ex =
     JAppError st ti de (case ty of None \<Rightarrow> ''about:blank'' | Some t \<Rightarrow> t) ex
       [(''message'', JStr de), (''name'', JStr ''AppError'')]"

text \<open>
  Object spread \<^verbatim>\<open>{ ...base, ...extra }\<close>: each property of \<open>extra\<close> is defined on the
  object in turn; a key already there keeps its position and takes the new value, a new
  key is appended. Spreading \<^verbatim>\<open>undefined\<close> adds nothing.
\<close>

definition spread :: "object \<Rightarrow> object option \<Rightarrow> object" where
  "spread base ex =
     (case ex of None \<Rightarrow> base
      | Some es \<Rightarrow> fold (\<lambda>(k, v) acc. AList.update k v acc) es base)"

text \<open>
  The member names of the JSON text that \<^verbatim>\<open>res.json(obj)\<close> writes:
  \<^verbatim>\<open>JSON.stringify\<close> leaves out every property whose value is \<^verbatim>\<open>undefined\<close>
  (functions and symbols, left out as well, are not values of this model).
\<close>

definition json_fields :: "object \<Rightarrow> string list" where
  "json_fields b = map fst (filter (\<lambda>(k, v). v \<noteq> JUndefined) b)"

section \<open>Request and response\<close>

text \<open>
  The handlers call \<^verbatim>\<open>res.status\<close>, \<^verbatim>\<open>res.type\<close> and \<^verbatim>\<open>res.json\<close> of Express,
  which end in \<^verbatim>\<open>writeHead\<close> of Node. The source imports the types of Express
  without naming a version, and the two major versions in use differ on the status code:
  Express 5 checks it in \<^verbatim>\<open>res.status\<close>, Express 4 stores anything and leaves the
  check to Node, which first converts the stored value to a 32-bit integer. That
  conversion parses strings and turns objects into primitives; for these values it is a
  parameter of the Express 4 model (\<open>None\<close> stands for \<open>NaN\<close>).
\<close>

datatype express = Express4 "jsval \<Rightarrow> rat option" | Express5

text \<open>
  Of the request the handlers read \<^verbatim>\<open>url\<close> and \<^verbatim>\<open>path\<close>. \<^verbatim>\<open>res.send\<close> reads
  \<^verbatim>\<open>req.fresh\<close>: \<open>revalidates\<close> says that the request is a GET or HEAD whose
  \<^verbatim>\<open>If-None-Match\<close> or \<^verbatim>\<open>If-Modified-Since\<close> matches the response being sent. The
  method itself is not modelled: to a HEAD request Express and Node send the headers of
  the same response and leave the body out.
\<close>

record request =
  url :: string
  path :: string
  revalidates :: bool

text \<open>
  The part of the Express response the two handlers touch: the version of Express it
  belongs to, whether the headers have gone out, the status code, the Content-Type
  header (media type and charset parameter) and the JSON body sent.
\<close>

record response =
  express :: express
  headersSent :: bool
  statusCode :: jsval
  contentType :: "(string \<times> string option) option"
  body :: "object option"

text \<open>
  \<^verbatim>\<open>res.status(code)\<close>. Express 5 throws a TypeError unless
  \<^verbatim>\<open>Number.isInteger(code)\<close> and a RangeError unless \<^verbatim>\<open>100 <= code <= 999\<close>;
  Express 4 stores whatever it is given.
\<close>

definition res_status :: "jsval \<Rightarrow> response \<Rightarrow> js_error + response" where
  "res_status code res =
     (case express res of
        Express4 tn \<Rightarrow> Inr (res\<lparr>statusCode := code\<rparr>)
      | Express5 \<Rightarrow>
          (case code of
             JNum r \<Rightarrow>
               if of_int \<lfloor>r\<rfloor> \<noteq> r then Inl TypeError
               else if r < 100 \<or> 999 < r then Inl RangeError
               else Inr (res\<lparr>statusCode := code\<rparr>)
           | _ \<Rightarrow> Inl TypeError))"

text \<open>
  \<^verbatim>\<open>res.type(t)\<close> with a full media type sets the Content-Type header to it; neither
  version knows a charset for \<^verbatim>\<open>application/problem+json\<close>.
\<close>

definition res_type :: "string \<Rightarrow> response \<Rightarrow> response" where
  "res_type t res = res\<lparr>contentType := Some (t, None)\<rparr>"

text \<open>
  JavaScript's \<^verbatim>\<open>ToNumber\<close>, with the conversion of strings, arrays and objects as
  the parameter \<open>tn\<close>. \<open>None\<close> is \<open>NaN\<close>; the infinities are \<open>None\<close> as well, since in
  both uses below (a comparison with the range 200..299 and \<^verbatim>\<open>ToInt32\<close>) they behave
  as \<open>NaN\<close> does.
\<close>

fun to_number :: "(jsval \<Rightarrow> rat option) \<Rightarrow> jsval \<Rightarrow> rat option" where
  "to_number tn JUndefined = None"
| "to_number tn JNull = Some 0"
| "to_number tn (JBool b) = Some (if b then 1 else 0)"
| "to_number tn (JNum r) = Some r"
| "to_number tn JNaN = None"
| "to_number tn (JInfinity p) = None"
| "to_number tn v = tn v"

text \<open>
  \<^verbatim>\<open>ToInt32\<close> of a finite number, as in \<^verbatim>\<open>statusCode |= 0\<close>: truncate towards zero,
  reduce modulo \<open>2^32\<close>, read as a signed 32-bit integer.
\<close>

definition to_int32 :: "rat \<Rightarrow> int" where
  "to_int32 r =
     (let i = (if r < 0 then - \<lfloor>- r\<rfloor> else \<lfloor>r\<rfloor>);
          m = i mod 2 ^ 32
      in if 2 ^ 31 \<le> m then m - 2 ^ 32 else m)"

text \<open>
  \<^verbatim>\<open>res.statusCode\<close> as a number. Under Express 5 \<^verbatim>\<open>res.status\<close> has stored an
  integer.
\<close>

definition status_number :: "response \<Rightarrow> rat option" where
  "status_number res =
     (case express res of
        Express4 tn \<Rightarrow> to_number tn (statusCode res)
      | Express5 \<Rightarrow> (case statusCode res of JNum r \<Rightarrow> Some r | _ \<Rightarrow> None))"

text \<open>
  \<^verbatim>\<open>req.fresh\<close>: a revalidating request and a status with
  \<^verbatim>\<open>(status >= 200 && status < 300) || 304 === status\<close>.
\<close>

definition req_fresh :: "request \<Rightarrow> response \<Rightarrow> bool" where
  "req_fresh req res \<longleftrightarrow>
     revalidates req \<and>
     ((case status_number res of None \<Rightarrow> False | Some x \<Rightarrow> 200 \<le> x \<and> x < 300)
      \<or> statusCode res = JNum 304)"

text \<open>
  Node's \<^verbatim>\<open>writeHead(statusCode)\<close>: \<^verbatim>\<open>statusCode |= 0\<close>, then a RangeError unless
  the result is in 100..999.
\<close>

definition writeHead :: "response \<Rightarrow> js_error + int" where
  "writeHead res =
     (let n = (case status_number res of None \<Rightarrow> 0 | Some x \<Rightarrow> to_int32 x)
      in if n < 100 \<or> 999 < n then Inl RangeError else Inr n)"

text \<open>
  \<^verbatim>\<open>res.send(chunk)\<close> for the string that \<^verbatim>\<open>res.json\<close> hands over, kept here as the
  object it serialises. The charset \<^verbatim>\<open>utf-8\<close> is put on the Content-Type; a fresh
  request turns the status into 304; for a status \<^verbatim>\<open>=== 204\<close> or \<^verbatim>\<open>=== 304\<close> the
  Content-Type is removed and the chunk emptied, for \<^verbatim>\<open>=== 205\<close> the chunk is emptied;
  then \<^verbatim>\<open>res.end\<close> writes the head, and Node writes no body for the statuses 1xx, 204
  and 304. The status code of the result is the one on the status line.
\<close>

definition res_send :: "object \<Rightarrow> request \<Rightarrow> response \<Rightarrow> js_error + response" where
  "res_send chunk req res =
     (let res1 = res\<lparr>contentType := map_option (\<lambda>(t, c). (t, Some ''utf-8'')) (contentType res)\<rparr>;
          res2 = (if req_fresh req res1 then res1\<lparr>statusCode := JNum 304\<rparr> else res1);
          bare = (statusCode res2 = JNum 204 \<or> statusCode res2 = JNum 304);
          res3 = (if bare then res2\<lparr>contentType := None\<rparr> else res2);
          chunk' = (if bare \<or> statusCode res2 = JNum 205 then None else Some chunk)
      in case writeHead res3 of
           Inl e \<Rightarrow> Inl e
         | Inr n \<Rightarrow>
             Inr (res3\<lparr>headersSent := True,
                       statusCode := JNum (of_int n),
                       body := (if n = 204 \<or> n = 304 \<or> (100 \<le> n \<and> n \<le> 199) then None
                                else chunk')\<rparr>))"

text \<open>
  \<^verbatim>\<open>res.json(obj)\<close>: sets the Content-Type to \<^verbatim>\<open>application/json\<close> (for which both
  versions add the charset) unless one is set already, and sends the serialised
  object. Setting a header after the headers have been sent throws.
\<close>

definition res_json :: "object \<Rightarrow> request \<Rightarrow> response \<Rightarrow> js_error + response" where
  "res_json obj req res =
     (if headersSent res then Inl ERR_HTTP_HEADERS_SENT
      else res_send obj req
             (res\<lparr>contentType :=
                   (case contentType res of
                      None \<Rightarrow> Some (''application/json'', Some ''utf-8'')
                    | Some t \<Rightarrow> Some t)\<rparr>))"

section \<open>The error handler\<close>

text \<open>
  What a call of \<open>errorHandler\<close> does: it hands the error to \<^verbatim>\<open>next\<close> (with the
  response as it then is), it sends a response, or it throws (the handler catches
  nothing, so what Express or Node throws leaves it).
\<close>

datatype outcome =
    Forwarded jsval response
  | Responded response
  | Threw js_error

text \<open>
  The value of the local variable \<^verbatim>\<open>problemDetail\<close> after the chain of
  \<^verbatim>\<open>if\<close>/\<^verbatim>\<open>else if\<close>, branch by branch in the order of the source. The
  comparisons are \<^verbatim>\<open>===\<close> against string literals: only the string itself is equal.
  A read of \<^verbatim>\<open>err.name\<close> on \<^verbatim>\<open>undefined\<close> or \<^verbatim>\<open>null\<close> throws, and the throw
  leaves the function. The call \<^verbatim>\<open>console.error('Error:', err)\<close> writes to the
  process log and touches neither the response nor the result; it is left out.
\<close>

definition problemDetail :: "jsval \<Rightarrow> request \<Rightarrow> js_error + object" where
  "problemDetail err req =
     (case err of
        JAppError st ti de ty ex ot \<Rightarrow>
          Inr (spread
            [(''type'', JStr ty),
             (''title'', JStr ti),
             (''status'', JNum st),
             (''detail'', JStr de),
             (''instance'', JStr (url req))] ex)
      | _ \<Rightarrow>
        (case get_prop err ''name'' of Inl e \<Rightarrow> Inl e | Inr name \<Rightarrow>
        (case get_prop err ''validation'' of Inl e \<Rightarrow> Inl e | Inr validation \<Rightarrow>
           if name = JStr ''ValidationError'' \<or> truthy validation then
             (case get_prop err ''details'' of Inl e \<Rightarrow> Inl e | Inr details \<Rightarrow>
                Inr [(''type'', JStr ''https://nutrition-app.com/validation-error''),
                     (''title'', JStr ''Validation Error''),
                     (''status'', JNum 400),
                     (''detail'', JStr ''Request validation failed''),
                     (''instance'', JStr (url req)),
                     (''errors'', if truthy validation then validation else details)])
           else
             (case get_prop err ''code'' of Inl e \<Rightarrow> Inl e | Inr code \<Rightarrow>
                if code = JStr ''23505'' then
                  Inr [(''type'', JStr ''https://nutrition-app.com/duplicate-resource''),
                       (''title'', JStr ''Duplicate Resource''),
                       (''status'', JNum 409),
                       (''detail'', JStr ''A resource with this identifier already exists''),
                       (''instance'', JStr (url req))]
                else if code = JStr ''23503'' then
                  Inr [(''type'', JStr ''https://nutrition-app.com/reference-error''),
                       (''title'', JStr ''Reference Error''),
                       (''status'', JNum 400),
                       (''detail'', JStr ''Referenced resource does not exist''),
                       (''instance'', JStr (url req))]
                else
                  Inr [(''type'', JStr ''about:blank''),
                       (''title'', JStr ''Internal Server Error''),
                       (''status'', JNum 500),
                       (''detail'', JStr ''An unexpected error occurred''),
                       (''instance'', JStr (url req))]))))"

definition errorHandler :: "jsval \<Rightarrow> request \<Rightarrow> response \<Rightarrow> outcome" where
  "errorHandler err req res =
     (if headersSent res then Forwarded err res
      else case problemDetail err req of
             Inl e \<Rightarrow> Threw e
           | Inr pd \<Rightarrow>
               (case res_status (obj_get pd ''status'') res of
                  Inl e \<Rightarrow> Threw e
                | Inr res1 \<Rightarrow>
                    (case res_json pd req (res_type ''application/problem+json'' res1) of
                       Inl e \<Rightarrow> Threw e
                     | Inr res2 \<Rightarrow> Responded res2)))"


text \<open>The five members of a problem-details body.\<close>

definition std_fields :: "string list" where
  "std_fields = [''type'', ''title'', ''status'', ''detail'', ''instance'']"

text \<open>\<^verbatim>\<open>err.extra\<close> of an AppError; other values are not spread by the handler.\<close>

fun extra_of :: "jsval \<Rightarrow> object option" where
  "extra_of (JAppError st ti de ty ex ot) = ex"
| "extra_of v = None"

text \<open>
  The errors that get past the first two branches of the handler: not an AppError, a name
  other than \<^verbatim>\<open>'ValidationError'\<close>, no truthy \<^verbatim>\<open>validation\<close> property. The reads
  must succeed, so \<^verbatim>\<open>undefined\<close> and \<^verbatim>\<open>null\<close> are not among them.
\<close>

definition reaches_code_check :: "jsval \<Rightarrow> bool" where
  "reaches_code_check err \<longleftrightarrow>
     \<not> instanceof_AppError err \<and>
     (case get_prop err ''name'' of Inl e \<Rightarrow> False | Inr n \<Rightarrow> n \<noteq> JStr ''ValidationError'') \<and>
     (case get_prop err ''validation'' of Inl e \<Rightarrow> False | Inr v \<Rightarrow> \<not> truthy v)"

text \<open>\<^verbatim>\<open>err.code === c\<close> for a string \<open>c\<close>.\<close>

definition code_is :: "jsval \<Rightarrow> string \<Rightarrow> bool" where
  "code_is err c \<longleftrightarrow> get_prop err ''code'' = Inr (JStr c)"

text \<open>
  Shorthands for stating results: a problem-details object with the five standard
  members, and the response after \<^verbatim>\<open>res.status(st).type('application/problem+json').json(b)\<close>
  when the body is sent under the status \<open>st\<close>.
\<close>

definition problem :: "string \<Rightarrow> string \<Rightarrow> rat \<Rightarrow> string \<Rightarrow> string \<Rightarrow> object" where
  "problem ty ti st de inst =
     [(''type'', JStr ty), (''title'', JStr ti), (''status'', JNum st),
      (''detail'', JStr de), (''instance'', JStr inst)]"

definition sent :: "jsval \<Rightarrow> object \<Rightarrow> response \<Rightarrow> response" where
  "sent st b res = res\<lparr>headersSent := True, statusCode := st,
      contentType := Some (''application/problem+json'', Some ''utf-8''), body := Some b\<rparr>"


text \<open>
  For the examples: a response of Express 5 on which nothing has been set yet (Express
  starts with status 200), the same under Express 4 (the conversion of strings and
  objects is never consulted there: the statuses of the examples are numbers), and a
  request.
\<close>

definition fresh_response :: response where
  "fresh_response =
     \<lparr>express = Express5, headersSent = False, statusCode = JNum 200, contentType = None,
      body = None\<rparr>"

definition fresh_response4 :: response where
  "fresh_response4 = fresh_response\<lparr>express := Express4 (\<lambda>v. None)\<rparr>"

definition recipes_request :: request where
  "recipes_request =
     \<lparr>url = ''/api/v1/recipes?limit=5'', path = ''/api/v1/recipes'', revalidates = False\<rparr>"


section \<open>The search endpoint\<close>

text \<open>
  The route \<^verbatim>\<open>GET /api/v1/recipes\<close>, its validator and the SQL function
  \<^verbatim>\<open>search_recipes\<close> (\<^verbatim>\<open>server/routes\<close>, \<^verbatim>\<open>db/functions.sql\<close>) are named by the
  README but their code is not available. The definitions of this section and of the
  next follow the specification's sections 4.1, 4.3, 4.5, 6 and 7.
\<close>

text \<open>
  Modelled from the spec: the query parameters of a search request that the validator
  and the pagination read (the route and its parameter parsing are missing).
\<close>

record search_query =
  diets :: "string list"
  allergens :: "string list"
  cuisines :: "string list"
  calories_min :: "int option"
  calories_max :: "int option"
  protein_min :: "int option"
  limit :: "nat option"
  offset :: "nat option"

text \<open>
  Modelled from the spec: the taxonomy tables \<^verbatim>\<open>tax_*\<close> of known diet, allergen and
  cuisine tokens (the tables are missing; they are a parameter).
\<close>

record taxonomy =
  tax_diets :: "string list"
  tax_allergens :: "string list"
  tax_cuisines :: "string list"

text \<open>
  Modelled from the spec: the validation failures section 4.1 names (the Filter
  Compiler's validator is missing): a negative \<^verbatim>\<open>protein_min\<close>,
  \<^verbatim>\<open>calories_min > calories_max\<close>, an unknown diet, allergen or cuisine token.
\<close>

datatype violation =
    ProteinMinNegative
  | CaloriesMinAboveMax
  | UnknownDiet string
  | UnknownAllergen string
  | UnknownCuisine string

text \<open>
  Modelled from the spec: the validator of the Filter Compiler (missing). Every rule is
  checked on its own and every failure is kept: "reported individually, not just the
  first found".
\<close>

definition validate :: "taxonomy \<Rightarrow> search_query \<Rightarrow> violation list" where
  "validate tx sq =
     (case protein_min sq of
        None \<Rightarrow> []
      | Some p \<Rightarrow> if p < 0 then [ProteinMinNegative] else [])
     @ (case calories_min sq of
          None \<Rightarrow> []
        | Some lo \<Rightarrow>
            (case calories_max sq of
               None \<Rightarrow> []
             | Some hi \<Rightarrow> if hi < lo then [CaloriesMinAboveMax] else []))
     @ map UnknownDiet (filter (\<lambda>t. t \<notin> set (tax_diets tx)) (diets sq))
     @ map UnknownAllergen (filter (\<lambda>t. t \<notin> set (tax_allergens tx)) (allergens sq))
     @ map UnknownCuisine (filter (\<lambda>t. t \<notin> set (tax_cuisines tx)) (cuisines sq))"

text \<open>
  Modelled from the spec: one per-field problem of the response, as a JSON object naming
  the parameter and the failure (the rendering is missing).
\<close>

fun violation_json :: "violation \<Rightarrow> jsval" where
  "violation_json ProteinMinNegative =
     JObj [(''field'', JStr ''protein_min''), (''message'', JStr ''must be >= 0'')]"
| "violation_json CaloriesMinAboveMax =
     JObj [(''field'', JStr ''calories_min''), (''message'', JStr ''must be <= calories_max'')]"
| "violation_json (UnknownDiet t) =
     JObj [(''field'', JStr ''diets''), (''message'', JStr (''unknown diet: '' @ t))]"
| "violation_json (UnknownAllergen t) =
     JObj [(''field'', JStr ''allergens''), (''message'', JStr (''unknown allergen: '' @ t))]"
| "violation_json (UnknownCuisine t) =
     JObj [(''field'', JStr ''cuisines''), (''message'', JStr (''unknown cuisine: '' @ t))]"

text \<open>
  Modelled from the spec: the ValidationError of section 7 that the validator raises (its
  class is missing), an error named \<^verbatim>\<open>'ValidationError'\<close> that carries the problems in
  \<^verbatim>\<open>details\<close>, one of the two properties the handler reads them from.
\<close>

definition ValidationError :: "violation list \<Rightarrow> jsval" where
  "ValidationError vs =
     JObj [(''name'', JStr ''ValidationError''),
           (''message'', JStr ''Request validation failed''),
           (''details'', JArr (map violation_json vs))]"

text \<open>
  Modelled from the spec: a recipe as the Tie-Break Sequencer sees it (the table is
  missing): its identity and \<^verbatim>\<open>updated_at\<close>; every other column lives in the record's
  extension.
\<close>

record 'id recipe =
  recipe_id :: 'id
  updated_at :: int

text \<open>
  Modelled from the spec: the total order of section 4.3 (the SQL \<^verbatim>\<open>ORDER BY\<close> is
  missing): composite score descending, then \<^verbatim>\<open>updated_at\<close> descending, then recipe
  identity ascending. The composite score of the Scoring Engine is a parameter.
\<close>

definition ranks_before ::
  "(('id::linorder, 'm) recipe_scheme \<Rightarrow> rat) \<Rightarrow> ('id, 'm) recipe_scheme \<Rightarrow> ('id, 'm) recipe_scheme \<Rightarrow> bool" where
  "ranks_before score a b \<longleftrightarrow>
     score b < score a \<or>
     (score a = score b \<and>
       (updated_at b < updated_at a \<or>
        (updated_at a = updated_at b \<and> recipe_id a \<le> recipe_id b)))"

text \<open>The same order as a sort key, compared lexicographically.\<close>

definition rank_key ::
  "(('id::linorder, 'm) recipe_scheme \<Rightarrow> rat) \<Rightarrow> ('id, 'm) recipe_scheme \<Rightarrow> rat \<times> int \<times> 'id" where
  "rank_key score r = (- score r, - updated_at r, recipe_id r)"

text \<open>
  Modelled from the spec: pagination of section 4.3 (missing): \<^verbatim>\<open>limit\<close> defaults to 50
  and is clamped to the hard maximum 200; \<^verbatim>\<open>offset\<close> defaults to 0.
\<close>

definition DEFAULT_LIMIT :: nat where
  "DEFAULT_LIMIT = 50"

definition MAX_LIMIT :: nat where
  "MAX_LIMIT = 200"

definition effective_limit :: "nat option \<Rightarrow> nat" where
  "effective_limit requested =
     (case requested of None \<Rightarrow> DEFAULT_LIMIT
      | Some l \<Rightarrow> if MAX_LIMIT < l then MAX_LIMIT else l)"

definition effective_offset :: "nat option \<Rightarrow> nat" where
  "effective_offset off = (case off of None \<Rightarrow> 0 | Some n \<Rightarrow> n)"

text \<open>
  Modelled from the spec: the response of a search (section 6): the ordered page, the
  effective limit and offset used, and the total-match count.
\<close>

record ('id, 'm) search_page =
  items :: "('id, 'm) recipe_scheme list"
  page_limit :: nat
  page_offset :: nat
  total :: nat

text \<open>
  Modelled from the spec: the search operation (the SQL function \<^verbatim>\<open>search_recipes\<close> is
  missing). The compiled filter predicate and the composite score are parameters; the
  candidates are ordered by the Tie-Break Sequencer and sliced.
\<close>

definition search_recipes ::
  "(('id::linorder, 'm) recipe_scheme \<Rightarrow> bool) \<Rightarrow> (('id, 'm) recipe_scheme \<Rightarrow> rat) \<Rightarrow>
   search_query \<Rightarrow> ('id, 'm) recipe_scheme list \<Rightarrow> ('id, 'm) search_page" where
  "search_recipes accepts score sq corpus =
     (let ranked = sort_key (rank_key score) (filter accepts corpus);
          used = effective_limit (limit sq);
          off = effective_offset (offset sq)
      in \<lparr>items = take used (drop off ranked),
          page_limit = used,
          page_offset = off,
          total = length ranked\<rparr>)"

text \<open>
  Modelled from the spec: the route \<^verbatim>\<open>GET /recipes\<close> (missing): a query with
  violations is raised as a ValidationError and reaches \<open>errorHandler\<close>; a valid one is
  searched.
\<close>

definition list_recipes ::
  "taxonomy \<Rightarrow> (('id::linorder, 'm) recipe_scheme \<Rightarrow> bool) \<Rightarrow> (('id, 'm) recipe_scheme \<Rightarrow> rat) \<Rightarrow>
   ('id, 'm) recipe_scheme list \<Rightarrow> search_query \<Rightarrow> request \<Rightarrow> response \<Rightarrow>
   outcome + ('id, 'm) search_page" where
  "list_recipes tx accepts score corpus sq req res =
     (case validate tx sq of
        [] \<Rightarrow> Inr (search_recipes accepts score sq corpus)
      | v # vs \<Rightarrow> Inl (errorHandler (ValidationError (v # vs)) req res))"

section \<open>The idempotency gate\<close>

text \<open>
  Modelled from the spec: the IdempotencyRecord of section 3 (the middleware is missing);
  times are seconds.
\<close>

record ('q, 'f, 'r) idem_record =
  requester :: 'q
  fingerprint :: 'f
  stored :: 'r
  created_at :: int

text \<open>Modelled from the spec: the replay window of 24 hours (missing constant).\<close>

definition REPLAY_WINDOW :: int where
  "REPLAY_WINDOW = 24 * 60 * 60"

definition expired :: "int \<Rightarrow> ('q, 'f, 'r) idem_record \<Rightarrow> bool" where
  "expired now rec \<longleftrightarrow> created_at rec + REPLAY_WINDOW \<le> now"

text \<open>
  What the gate answers: the result of running the operation, the stored result of an
  earlier run, or a conflict.
\<close>

datatype 'r gate_result = Executed 'r | Replayed 'r | Conflict

fun returned :: "'r gate_result \<Rightarrow> 'r option" where
  "returned (Executed r) = Some r"
| "returned (Replayed r) = Some r"
| "returned Conflict = None"

text \<open>
  Modelled from the spec: \<^verbatim>\<open>execute(key, requester, requestFingerprint, operation)\<close> of
  section 4.5 (the middleware is missing), on the record store and the state the
  operation changes. No key: a pass-through. No record, or an expired one: run the
  operation and store its result. A live record of the same requester and fingerprint:
  return the stored result, run nothing. A live record otherwise: a conflict (the spec
  says so for a different fingerprint; for a different requester it says nothing, and the
  gate refuses there too).
\<close>

definition execute ::
  "int \<Rightarrow> 'k option \<Rightarrow> 'q \<Rightarrow> 'f \<Rightarrow> ('s \<Rightarrow> 'r \<times> 's) \<Rightarrow>
   ('k \<rightharpoonup> ('q, 'f, 'r) idem_record) \<times> 's \<Rightarrow>
   'r gate_result \<times> ('k \<rightharpoonup> ('q, 'f, 'r) idem_record) \<times> 's" where
  "execute now key who fp operation st =
     (let (store, s) = st;
          run = (\<lambda>k. let (r, s') = operation s
                      in (Executed r,
                          store(k \<mapsto> \<lparr>requester = who, fingerprint = fp, stored = r, created_at = now\<rparr>),
                          s'))
      in case key of
           None \<Rightarrow> (let (r, s') = operation s in (Executed r, store, s'))
         | Some k \<Rightarrow>
             (case store k of
                None \<Rightarrow> run k
              | Some rec \<Rightarrow>
                  if expired now rec then run k
                  else if requester rec = who \<and> fingerprint rec = fp
                    then (Replayed (stored rec), store, s)
                  else (Conflict, store, s)))"


section \<open>Objects, the Express layer and the branches of the handler\<close>

lemma map_of_fold_update_notin:
  "k \<notin> fst ` set es \<Longrightarrow>
   map_of (fold (\<lambda>(k, v) acc. AList.update k v acc) es base) k = map_of base k"
  by (induction es arbitrary: base) (auto simp: update_conv')

lemma obj_get_spread_notin:
  "k \<notin> fst ` set es \<Longrightarrow> obj_get (spread base (Some es)) k = obj_get base k"
  by (simp add: spread_def obj_get_def map_of_fold_update_notin)

lemma map_of_fold_update:
  "map_of (fold (\<lambda>(k, v) acc. AList.update k v acc) es base) = map_of base ++ map_of (rev es)"
  by (induction es arbitrary: base)
     (auto simp: update_conv' fun_eq_iff map_add_def split: option.splits)

lemma map_of_rev_distinct: "distinct (map fst es) \<Longrightarrow> map_of (rev es) = map_of es"
  by (subst map_of_inject_set) (simp_all add: rev_map[symmetric])

lemma obj_get_spread_override:
  assumes "distinct (map fst es)" "map_of es k = Some v"
  shows "obj_get (spread base (Some es)) k = v"
  using assms by (simp add: spread_def obj_get_def map_of_fold_update map_of_rev_distinct map_add_def)


lemma json_fields_problem:
  "set std_fields \<subseteq> set (json_fields (problem ty ti st de inst @ rest))"
  by (simp add: std_fields_def json_fields_def problem_def)


lemma obj_get_problem_status:
  "obj_get (problem ty ti st de inst @ rest) ''status'' = JNum st"
  by (simp add: obj_get_def problem_def)




lemma to_int32_of_int:
  assumes "0 \<le> n" "n < 2 ^ 31"
  shows "to_int32 (of_int n) = n"
proof -
  from assms have "n mod 2 ^ 32 = n"
    by simp
  with assms show ?thesis
    by (simp add: to_int32_def Let_def)
qed

lemma res_status_valid:
  assumes "100 \<le> n" "n \<le> 999"
  shows "res_status (JNum (of_int n)) res = Inr (res\<lparr>statusCode := JNum (of_int n)\<rparr>)"
  using assms by (simp add: res_status_def split: express.splits)

lemma status_number_of_int:
  "statusCode res = JNum (of_int n) \<Longrightarrow> status_number res = Some (of_int n)"
  by (simp add: status_number_def split: express.splits)

lemma writeHead_valid:
  assumes "statusCode res = JNum (of_int n)" "100 \<le> n" "n \<le> 999"
  shows "writeHead res = Inr n"
proof -
  have "to_int32 (of_int n) = n"
    using assms(2,3) by (intro to_int32_of_int) simp_all
  with assms show ?thesis
    by (simp add: writeHead_def status_number_of_int)
qed

lemma res_json_plain:
  assumes "\<not> headersSent res" "300 \<le> n" "n \<le> 999" "n \<noteq> 304"
  shows "res_json pd req (res_type ''application/problem+json'' (res\<lparr>statusCode := JNum (of_int n)\<rparr>))
         = Inr (sent (JNum (of_int n)) pd res)"
proof -
  let ?r = "res\<lparr>statusCode := JNum (of_int n),
                contentType := Some (''application/problem+json'', Some ''utf-8'')\<rparr>"
  have sn: "status_number ?r = Some (of_int n)"
    by (simp add: status_number_of_int)
  have nf: "\<not> req_fresh req ?r"
    using assms(2,4) by (simp add: req_fresh_def sn)
  have wh: "writeHead ?r = Inr n"
    using assms(2,3) by (intro writeHead_valid) simp_all
  show ?thesis
    using assms nf wh
    by (simp add: res_json_def res_type_def res_send_def sent_def Let_def)
qed

lemma errorHandler_Inr:
  assumes "\<not> headersSent res" "problemDetail err req = Inr pd"
    and "obj_get pd ''status'' = JNum (of_int n)" "300 \<le> n" "n \<le> 999" "n \<noteq> 304"
  shows "errorHandler err req res = Responded (sent (JNum (of_int n)) pd res)"
proof -
  have "res_status (JNum (of_int n)) res = Inr (res\<lparr>statusCode := JNum (of_int n)\<rparr>)"
    using assms(4,5) by (intro res_status_valid) simp_all
  moreover note res_json_plain[OF assms(1,4,5,6), of pd req]
  ultimately show ?thesis
    using assms(1-3) by (simp add: errorHandler_def)
qed


lemma res_json_bodyD:
  assumes "res_json pd req res = Inr r" "body r = Some b"
  shows "b = pd"
  using assms
  by (auto simp: res_json_def res_send_def Let_def split: if_splits sum.splits)



lemma errorHandler_RespondedD:
  assumes "errorHandler err req res = Responded r"
  shows "\<not> headersSent res \<and>
         (\<exists>pd res1. problemDetail err req = Inr pd \<and>
            res_status (obj_get pd ''status'') res = Inr res1 \<and>
            res_json pd req (res_type ''application/problem+json'' res1) = Inr r)"
  using assms by (auto simp: errorHandler_def split: if_splits sum.splits)

lemma res_status_InrD:
  "res_status s res = Inr res1 \<Longrightarrow> res1 = res\<lparr>statusCode := s\<rparr>"
  by (auto simp: res_status_def split: express.splits jsval.splits if_splits)

lemma sent_status:
  assumes "res_json pd req (res_type t (res\<lparr>statusCode := JNum (of_int n)\<rparr>)) = Inr r"
    and "body r \<noteq> None" "100 \<le> n" "n \<le> 999"
  shows "statusCode r = JNum (of_int n)"
proof -
  let ?r1 = "res\<lparr>statusCode := JNum (of_int n), contentType := Some (t, Some ''utf-8'')\<rparr>"
  have nf: "\<not> req_fresh req ?r1"
  proof
    assume "req_fresh req ?r1"
    with assms(1) have "body r = None"
      by (auto simp: res_json_def res_type_def res_send_def Let_def split: if_splits sum.splits)
    with assms(2) show False by simp
  qed
  have wh: "writeHead ?r1 = Inr n"
    using assms(3,4) by (intro writeHead_valid) simp_all
  have wh': "writeHead (?r1\<lparr>contentType := None\<rparr>) = Inr n"
    using assms(3,4) by (intro writeHead_valid) simp_all
  from assms(1) nf wh wh' show ?thesis
    by (auto simp: res_json_def res_type_def res_send_def Let_def split: if_splits)
qed

lemma problemDetail_AppError:
  "problemDetail (JAppError st ti de ty ex ot) req = Inr (spread (problem ty ti st de (url req)) ex)"
  by (simp add: problemDetail_def problem_def)

lemma problemDetail_validation:
  assumes "\<not> instanceof_AppError err" "get_prop err ''name'' = Inr n"
    "get_prop err ''validation'' = Inr v" "n = JStr ''ValidationError'' \<or> truthy v"
    "get_prop err ''details'' = Inr d"
  shows "problemDetail err req =
     Inr (problem ''https://nutrition-app.com/validation-error'' ''Validation Error'' 400
            ''Request validation failed'' (url req) @ [(''errors'', if truthy v then v else d)])"
  using assms unfolding problemDetail_def problem_def by (cases err) auto

lemma problemDetail_internal:
  assumes "reaches_code_check err" "\<not> code_is err ''23505''" "\<not> code_is err ''23503''"
  shows "problemDetail err req =
     Inr (problem ''about:blank'' ''Internal Server Error'' 500 ''An unexpected error occurred'' (url req))"
  using assms unfolding reaches_code_check_def code_is_def problemDetail_def problem_def
  by (cases err) (auto split: sum.splits)

lemma problemDetail_23505:
  assumes "reaches_code_check err" "code_is err ''23505''"
  shows "problemDetail err req =
     Inr (problem ''https://nutrition-app.com/duplicate-resource'' ''Duplicate Resource'' 409
            ''A resource with this identifier already exists'' (url req))"
  using assms unfolding reaches_code_check_def code_is_def problemDetail_def problem_def
  by (cases err) (auto split: sum.splits)

lemma problemDetail_23503:
  assumes "reaches_code_check err" "code_is err ''23503''"
  shows "problemDetail err req =
     Inr (problem ''https://nutrition-app.com/reference-error'' ''Reference Error'' 400
            ''Referenced resource does not exist'' (url req))"
  using assms unfolding reaches_code_check_def code_is_def problemDetail_def problem_def
  by (cases err) (auto split: sum.splits)




lemma errorHandler_problem:
  assumes "\<not> headersSent res"
    and "problemDetail err req = Inr (problem ty ti r de inst @ rest)"
    and "r = of_int n" "300 \<le> n" "n \<le> 999" "n \<noteq> 304"
  shows "errorHandler err req res = Responded (sent (JNum r) (problem ty ti r de inst @ rest) res)"
  using errorHandler_Inr[OF assms(1,2) _ assms(4-6)] assms(3)
  by (simp add: obj_get_problem_status)

lemma errorHandler_problem0:
  assumes "\<not> headersSent res"
    and "problemDetail err req = Inr (problem ty ti r de inst)"
    and "r = of_int n" "300 \<le> n" "n \<le> 999" "n \<noteq> 304"
  shows "errorHandler err req res = Responded (sent (JNum r) (problem ty ti r de inst) res)"
  using errorHandler_problem[of res err req ty ti r de inst "[]" n] assms
  by simp





lemmas respond_defs =
  res_status_def res_type_def res_json_def res_send_def req_fresh_def writeHead_def
  status_number_def to_int32_def sent_def Let_def


section \<open>Claims about the error handler\<close>






text \<open>
  Claim C2. For every error value that is not an AppError, whose name is not
  \<^verbatim>\<open>'ValidationError'\<close>, that has no truthy \<^verbatim>\<open>validation\<close> field and whose
  \<^verbatim>\<open>code\<close> is neither \<^verbatim>\<open>'23505'\<close> nor \<^verbatim>\<open>'23503'\<close>, \<open>errorHandler\<close> responds with
  status 500 and the fixed body \<^verbatim>\<open>about:blank\<close> / \<^verbatim>\<open>Internal Server Error\<close> / 500 /
  \<^verbatim>\<open>An unexpected error occurred\<close> / \<^verbatim>\<open>req.url\<close>; two such errors and the same request
  URL give identical bodies, so nothing of the fault reaches the caller.
\<close>

theorem internal_faults_collapse:
  assumes "\<not> headersSent res1" "\<not> headersSent res2" "url req1 = url req2"
    and "reaches_code_check e1" "\<not> code_is e1 ''23505''" "\<not> code_is e1 ''23503''"
    and "reaches_code_check e2" "\<not> code_is e2 ''23505''" "\<not> code_is e2 ''23503''"
  shows "errorHandler e1 req1 res1 =
           Responded (sent (JNum 500)
             (problem ''about:blank'' ''Internal Server Error'' 500
                ''An unexpected error occurred'' (url req1)) res1)
         \<and> errorHandler e2 req2 res2 =
           Responded (sent (JNum 500)
             (problem ''about:blank'' ''Internal Server Error'' 500
                ''An unexpected error occurred'' (url req1)) res2)
         \<and> (\<forall>r1 r2. errorHandler e1 req1 res1 = Responded r1 \<and>
                      errorHandler e2 req2 res2 = Responded r2 \<longrightarrow> body r1 = body r2)"
proof -
  have one: "errorHandler e req res =
           Responded (sent (JNum 500)
             (problem ''about:blank'' ''Internal Server Error'' 500
                ''An unexpected error occurred'' (url req)) res)"
    if "\<not> headersSent res" "reaches_code_check e" "\<not> code_is e ''23505''" "\<not> code_is e ''23503''"
    for e req res
    using that(1) problemDetail_internal[OF that(2-4)]
    by (rule errorHandler_problem0[where n = 500]) simp_all
  have a: "errorHandler e1 req1 res1 =
           Responded (sent (JNum 500)
             (problem ''about:blank'' ''Internal Server Error'' 500
                ''An unexpected error occurred'' (url req1)) res1)"
    using assms(1,4-6) by (rule one)
  have "errorHandler e2 req2 res2 =
           Responded (sent (JNum 500)
             (problem ''about:blank'' ''Internal Server Error'' 500
                ''An unexpected error occurred'' (url req2)) res2)"
    using assms(2,7-9) by (rule one)
  then have b: "errorHandler e2 req2 res2 =
           Responded (sent (JNum 500)
             (problem ''about:blank'' ''Internal Server Error'' 500
                ''An unexpected error occurred'' (url req1)) res2)"
    by (simp only: assms(3))
  have "body r1 = body r2"
    if "errorHandler e1 req1 res1 = Responded r1 \<and> errorHandler e2 req2 res2 = Responded r2"
    for r1 r2
    using that unfolding a b by (auto simp: sent_def)
  with a b show ?thesis
    by blast
qed

text \<open>The theorem at a connection error object and at a thrown string.\<close>

theorem internal_faults_collapse_witness:
  "errorHandler (JObj [(''name'', JStr ''Error''),
                       (''message'', JStr ''connect ECONNREFUSED 10.0.0.5:5432''),
                       (''code'', JStr ''ECONNREFUSED'')]) recipes_request fresh_response
     = Responded (sent (JNum 500)
         (problem ''about:blank'' ''Internal Server Error'' 500
            ''An unexpected error occurred'' (url recipes_request)) fresh_response)
   \<and> errorHandler (JStr ''password authentication failed for user admin'') recipes_request fresh_response
     = Responded (sent (JNum 500)
         (problem ''about:blank'' ''Internal Server Error'' 500
            ''An unexpected error occurred'' (url recipes_request)) fresh_response)"
proof -
  let ?e1 = "JObj [(''name'', JStr ''Error''),
                       (''message'', JStr ''connect ECONNREFUSED 10.0.0.5:5432''),
                       (''code'', JStr ''ECONNREFUSED'')]"
  let ?e2 = "JStr ''password authentication failed for user admin''"
  have h: "\<not> headersSent fresh_response"
    by (simp add: fresh_response_def)
  have a1: "reaches_code_check ?e1" "\<not> code_is ?e1 ''23505''" "\<not> code_is ?e1 ''23503''"
    by (simp_all add: reaches_code_check_def code_is_def obj_get_def)
  have a2: "reaches_code_check ?e2" "\<not> code_is ?e2 ''23505''" "\<not> code_is ?e2 ''23503''"
    by (simp_all add: reaches_code_check_def code_is_def obj_get_def)
  from internal_faults_collapse[OF h h refl a1 a2, of recipes_request]
  show ?thesis
    by blast
qed

text \<open>
  Claim C3, as amended. For every error that is not an AppError and whose name is
  \<^verbatim>\<open>'ValidationError'\<close> or that carries a truthy \<^verbatim>\<open>validation\<close> field,
  \<open>errorHandler\<close> returns status 400 with a problem-details body that has the members
  \<^verbatim>\<open>type\<close>, \<^verbatim>\<open>title\<close>, \<^verbatim>\<open>status\<close>, \<^verbatim>\<open>detail\<close> and \<^verbatim>\<open>instance\<close>; its
  \<^verbatim>\<open>errors\<close> member is \<^verbatim>\<open>err.validation\<close> when that is truthy and \<^verbatim>\<open>err.details\<close>
  otherwise, and is in the JSON exactly when that value is not \<^verbatim>\<open>undefined\<close>.
\<close>

theorem validation_errors_are_400:
  assumes "\<not> headersSent res" "\<not> instanceof_AppError err"
    and "get_prop err ''name'' = Inr n" "get_prop err ''validation'' = Inr v"
    and "n = JStr ''ValidationError'' \<or> truthy v"
    and "get_prop err ''details'' = Inr d"
  shows "\<exists>b. errorHandler err req res = Responded (sent (JNum 400) b res)
           \<and> b = problem ''https://nutrition-app.com/validation-error'' ''Validation Error'' 400
                   ''Request validation failed'' (url req)
                 @ [(''errors'', if truthy v then v else d)]
           \<and> set std_fields \<subseteq> set (json_fields b)
           \<and> (''errors'' \<in> set (json_fields b) \<longleftrightarrow> (if truthy v then v else d) \<noteq> JUndefined)"
proof -
  let ?b = "problem ''https://nutrition-app.com/validation-error'' ''Validation Error'' 400
                   ''Request validation failed'' (url req)
                 @ [(''errors'', if truthy v then v else d)]"
  have "errorHandler err req res = Responded (sent (JNum 400) ?b res)"
    using assms(1) problemDetail_validation[OF assms(2-6)]
    by (rule errorHandler_problem[where n = 400]) simp_all
  moreover have "''errors'' \<in> set (json_fields ?b) \<longleftrightarrow> (if truthy v then v else d) \<noteq> JUndefined"
    by (simp add: json_fields_def problem_def)
  ultimately show ?thesis
    using json_fields_problem by blast
qed

text \<open>The theorem at an error that carries its problems in \<^verbatim>\<open>validation\<close>.\<close>

theorem validation_errors_are_400_witness:
  "\<exists>b. errorHandler (JObj [(''validation'', JArr [JStr ''protein_min must be >= 0'']),
                           (''details'', JStr ''ignored'')]) recipes_request fresh_response
         = Responded (sent (JNum 400) b fresh_response)
       \<and> b = problem ''https://nutrition-app.com/validation-error'' ''Validation Error'' 400
                   ''Request validation failed'' (url recipes_request)
               @ [(''errors'', JArr [JStr ''protein_min must be >= 0''])]
       \<and> set std_fields \<subseteq> set (json_fields b)
       \<and> ''errors'' \<in> set (json_fields b)"
proof -
  let ?e = "JObj [(''validation'', JArr [JStr ''protein_min must be >= 0'']),
                           (''details'', JStr ''ignored'')]"
  have h: "\<not> headersSent fresh_response"
    by (simp add: fresh_response_def)
  have a: "\<not> instanceof_AppError ?e" "get_prop ?e ''name'' = Inr JUndefined"
    "get_prop ?e ''validation'' = Inr (JArr [JStr ''protein_min must be >= 0''])"
    "JUndefined = JStr ''ValidationError'' \<or> truthy (JArr [JStr ''protein_min must be >= 0''])"
    "get_prop ?e ''details'' = Inr (JStr ''ignored'')"
    by (simp_all add: obj_get_def)
  show ?thesis
    using validation_errors_are_400[OF h a, of recipes_request] by simp
qed

text \<open>
  Claim C3 as stated fails twice. An error named \<^verbatim>\<open>'ValidationError'\<close> with neither
  \<^verbatim>\<open>validation\<close> nor \<^verbatim>\<open>details\<close> gets a body whose \<^verbatim>\<open>errors\<close> is
  \<^verbatim>\<open>undefined\<close>, which the JSON leaves out. An AppError instance named
  \<^verbatim>\<open>'ValidationError'\<close> is answered by the first branch, with its own status.
\<close>

theorem validation_without_details_counterexample:
  "errorHandler (JObj [(''name'', JStr ''ValidationError''), (''message'', JStr ''bad input'')])
      recipes_request fresh_response
   = Responded (sent (JNum 400)
       (problem ''https://nutrition-app.com/validation-error'' ''Validation Error'' 400
          ''Request validation failed'' (url recipes_request) @ [(''errors'', JUndefined)])
       fresh_response)
   \<and> ''errors'' \<notin> set (json_fields
       (problem ''https://nutrition-app.com/validation-error'' ''Validation Error'' 400
          ''Request validation failed'' (url recipes_request) @ [(''errors'', JUndefined)]))
   \<and> errorHandler (JAppError 422 ''Unprocessable'' ''bad unit'' ''about:blank'' None
                     [(''name'', JStr ''ValidationError'')])
      recipes_request fresh_response
   = Responded (sent (JNum 422)
       (problem ''about:blank'' ''Unprocessable'' 422 ''bad unit'' (url recipes_request))
       fresh_response)"
  by (simp add: errorHandler_def problemDetail_def spread_def respond_defs
      fresh_response_def recipes_request_def problem_def obj_get_def json_fields_def)

text \<open>
  Claim C5, as amended. For every response that \<open>errorHandler\<close> sends with a body whose
  \<^verbatim>\<open>status\<close> member is an integer HTTP status code (100 to 999), the status code of
  the response is that member; when an AppError's \<^verbatim>\<open>extra\<close> overrides \<^verbatim>\<open>status\<close>,
  the overriding value is the status code of the response, since the status is read from
  the body after the merge.
\<close>

theorem status_code_is_body_status:
  assumes "errorHandler err req res = Responded r" "body r = Some b"
    and "obj_get b ''status'' = JNum (of_int n)" "100 \<le> n" "n \<le> 999"
  shows "statusCode r = obj_get b ''status''
       \<and> (\<forall>es s. extra_of err = Some es \<and> distinct (map fst es) \<and>
                 map_of es ''status'' = Some s \<longrightarrow> statusCode r = s)"
proof -
  from errorHandler_RespondedD[OF assms(1)] obtain pd res1 where
    pd: "problemDetail err req = Inr pd"
    and s: "res_status (obj_get pd ''status'') res = Inr res1"
    and j: "res_json pd req (res_type ''application/problem+json'' res1) = Inr r"
    by blast
  have b: "b = pd"
    using j assms(2) by (rule res_json_bodyD)
  with assms(3) have st: "obj_get pd ''status'' = JNum (of_int n)"
    by simp
  from s have "res1 = res\<lparr>statusCode := JNum (of_int n)\<rparr>"
    unfolding st by (rule res_status_InrD)
  with j have "res_json pd req (res_type ''application/problem+json''
      (res\<lparr>statusCode := JNum (of_int n)\<rparr>)) = Inr r"
    by simp
  moreover have "body r \<noteq> None"
    using assms(2) by simp
  ultimately have sc: "statusCode r = JNum (of_int n)"
    using assms(4,5) by (rule sent_status)
  have ov: "\<forall>es s. extra_of err = Some es \<and> distinct (map fst es) \<and>
                 map_of es ''status'' = Some s \<longrightarrow> statusCode r = s"
  proof (intro allI impI)
    fix es s
    assume that: "extra_of err = Some es \<and> distinct (map fst es) \<and> map_of es ''status'' = Some s"
    from that have x: "extra_of err = Some es" and d: "distinct (map fst es)"
      and m: "map_of es ''status'' = Some s"
      by blast+
    from x obtain st ti de ty ot where e: "err = JAppError st ti de ty (Some es) ot"
      by (cases err) simp_all
    from pd have "pd = spread (problem ty ti st de (url req)) (Some es)"
      unfolding e problemDetail_AppError by simp
    then have "obj_get pd ''status'' = s"
      using obj_get_spread_override[OF d m] by simp
    with st sc show "statusCode r = s" by simp
  qed
  from sc assms(3) have "statusCode r = obj_get b ''status''"
    by simp
  then show ?thesis
    using ov by (rule conjI)
qed


text \<open>The theorem at an AppError of status 409 whose \<^verbatim>\<open>extra\<close> sets status 404.\<close>

theorem status_code_is_body_status_witness:
  "errorHandler (JAppError 409 ''Conflict'' ''taken'' ''about:blank'' (Some [(''status'', JNum 404)]) [])
     recipes_request fresh_response
   = Responded (sent (JNum 404)
            [(''type'', JStr ''about:blank''), (''title'', JStr ''Conflict''), (''status'', JNum 404),
             (''detail'', JStr ''taken''), (''instance'', JStr (url recipes_request))] fresh_response) \<and>
   statusCode (sent (JNum 404)
            [(''type'', JStr ''about:blank''), (''title'', JStr ''Conflict''), (''status'', JNum 404),
             (''detail'', JStr ''taken''), (''instance'', JStr (url recipes_request))] fresh_response)
     = obj_get [(''type'', JStr ''about:blank''), (''title'', JStr ''Conflict''), (''status'', JNum 404),
             (''detail'', JStr ''taken''), (''instance'', JStr (url recipes_request))] ''status''"
proof -
  let ?e = "JAppError 409 ''Conflict'' ''taken'' ''about:blank'' (Some [(''status'', JNum 404)]) []"
  let ?b = "[(''type'', JStr ''about:blank''), (''title'', JStr ''Conflict''), (''status'', JNum 404),
             (''detail'', JStr ''taken''), (''instance'', JStr (url recipes_request))]"
  let ?r = "sent (JNum 404) ?b fresh_response"
  have h: "\<not> headersSent fresh_response"
    by (simp add: fresh_response_def)
  have pd: "problemDetail ?e recipes_request = Inr ?b"
    by (simp add: problemDetail_def spread_def)
  have st: "obj_get ?b ''status'' = JNum (of_int 404)"
    by (simp add: obj_get_def)
  have run: "errorHandler ?e recipes_request fresh_response = Responded ?r"
    using errorHandler_Inr[OF h pd st] by simp
  have bd: "body ?r = Some ?b"
    by (simp add: sent_def)
  from status_code_is_body_status[OF run bd st] run show ?thesis
    by simp
qed


text \<open>
  Claim C5 as stated fails. Under Express 4 the status \<^verbatim>\<open>404.5\<close>, set through
  \<^verbatim>\<open>extra\<close>, is stored as it is and truncated by Node: the response has status 404
  and a body whose \<^verbatim>\<open>status\<close> is 404.5 (Express 5 throws there). Under both versions
  an AppError of status 204 is answered without a body, so no \<^verbatim>\<open>status\<close> member is
  sent at all.
\<close>

theorem status_differs_from_body_counterexample:
  "errorHandler (AppError 409 ''Conflict'' ''taken'' None (Some [(''status'', JNum (809 / 2))]))
      recipes_request fresh_response4
   = Responded (sent (JNum 404)
       [(''type'', JStr ''about:blank''), (''title'', JStr ''Conflict''), (''status'', JNum (809 / 2)),
        (''detail'', JStr ''taken''), (''instance'', JStr (url recipes_request))] fresh_response4)
   \<and> JNum 404 \<noteq> obj_get
       [(''type'', JStr ''about:blank''), (''title'', JStr ''Conflict''), (''status'', JNum (809 / 2)),
        (''detail'', JStr ''taken''), (''instance'', JStr (url recipes_request))] ''status''
   \<and> errorHandler (AppError 204 ''No Content'' ''nothing to report'' None None)
      recipes_request fresh_response
   = Responded (fresh_response\<lparr>headersSent := True, statusCode := JNum 204\<rparr>)
   \<and> body (fresh_response\<lparr>headersSent := True, statusCode := JNum 204\<rparr>) = None
   \<and> errorHandler (AppError 204 ''No Content'' ''nothing to report'' None None)
      recipes_request fresh_response4
   = Responded (fresh_response4\<lparr>headersSent := True, statusCode := JNum 204\<rparr>)
   \<and> body (fresh_response4\<lparr>headersSent := True, statusCode := JNum 204\<rparr>) = None"
proof -
  have "\<lfloor>809 / 2 :: rat\<rfloor> = 404"
    by (rule floor_unique) simp_all
  then show ?thesis
    by (simp add: errorHandler_def problemDetail_def AppError_def spread_def obj_get_def
      res_status_def res_type_def res_json_def res_send_def req_fresh_def writeHead_def
      status_number_def to_int32_def sent_def fresh_response_def fresh_response4_def
      recipes_request_def Let_def)
qed


text \<open>
  Claim C6, as amended. For every error that is not an AppError, whose name is not
  \<^verbatim>\<open>'ValidationError'\<close> and that has no truthy \<^verbatim>\<open>validation\<close> field: code
  \<^verbatim>\<open>'23505'\<close> gives the 409 \<^verbatim>\<open>Duplicate Resource\<close> problem and code \<^verbatim>\<open>'23503'\<close> the
  400 \<^verbatim>\<open>Reference Error\<close> problem; the whole body is fixed but for the request URL, so
  the detail holds nothing of the database error.
\<close>

theorem pg_codes_mapped:
  assumes "\<not> headersSent res" "reaches_code_check err"
  shows "(code_is err ''23505'' \<longrightarrow>
            errorHandler err req res = Responded (sent (JNum 409)
              (problem ''https://nutrition-app.com/duplicate-resource'' ''Duplicate Resource'' 409
                 ''A resource with this identifier already exists'' (url req)) res))
       \<and> (code_is err ''23503'' \<longrightarrow>
            errorHandler err req res = Responded (sent (JNum 400)
              (problem ''https://nutrition-app.com/reference-error'' ''Reference Error'' 400
                 ''Referenced resource does not exist'' (url req)) res))"
proof (intro conjI impI)
  assume c: "code_is err ''23505''"
  show "errorHandler err req res = Responded (sent (JNum 409)
              (problem ''https://nutrition-app.com/duplicate-resource'' ''Duplicate Resource'' 409
                 ''A resource with this identifier already exists'' (url req)) res)"
    using assms(1) problemDetail_23505[OF assms(2) c]
    by (rule errorHandler_problem0[where n = 409]) simp_all
next
  assume c: "code_is err ''23503''"
  show "errorHandler err req res = Responded (sent (JNum 400)
              (problem ''https://nutrition-app.com/reference-error'' ''Reference Error'' 400
                 ''Referenced resource does not exist'' (url req)) res)"
    using assms(1) problemDetail_23503[OF assms(2) c]
    by (rule errorHandler_problem0[where n = 400]) simp_all
qed

text \<open>The theorem at two PostgreSQL errors that carry table and key details.\<close>

theorem pg_codes_mapped_witness:
  "errorHandler (JObj [(''name'', JStr ''error''), (''code'', JStr ''23505''),
                       (''detail'', JStr ''Key (email)=(a@b.c) already exists.''),
                       (''constraint'', JStr ''users_email_key'')]) recipes_request fresh_response
     = Responded (sent (JNum 409)
         (problem ''https://nutrition-app.com/duplicate-resource'' ''Duplicate Resource'' 409
            ''A resource with this identifier already exists'' (url recipes_request)) fresh_response)
   \<and> errorHandler (JObj [(''name'', JStr ''error''), (''code'', JStr ''23503''),
                       (''detail'', JStr ''Key (recipe_id)=(7) is not present in table recipes.'')])
        recipes_request fresh_response
     = Responded (sent (JNum 400)
         (problem ''https://nutrition-app.com/reference-error'' ''Reference Error'' 400
            ''Referenced resource does not exist'' (url recipes_request)) fresh_response)"
proof -
  let ?e1 = "JObj [(''name'', JStr ''error''), (''code'', JStr ''23505''),
                       (''detail'', JStr ''Key (email)=(a@b.c) already exists.''),
                       (''constraint'', JStr ''users_email_key'')]"
  let ?e2 = "JObj [(''name'', JStr ''error''), (''code'', JStr ''23503''),
                       (''detail'', JStr ''Key (recipe_id)=(7) is not present in table recipes.'')]"
  have h: "\<not> headersSent fresh_response"
    by (simp add: fresh_response_def)
  have a1: "reaches_code_check ?e1" "code_is ?e1 ''23505''"
    by (simp_all add: reaches_code_check_def code_is_def obj_get_def)
  have a2: "reaches_code_check ?e2" "code_is ?e2 ''23503''"
    by (simp_all add: reaches_code_check_def code_is_def obj_get_def)
  show ?thesis
    using pg_codes_mapped[OF h a1(1), of recipes_request] pg_codes_mapped[OF h a2(1), of recipes_request]
      a1(2) a2(2)
    by blast
qed

text \<open>
  Claim C6 as stated fails: the validation branch comes before the code checks, so an
  error with code \<^verbatim>\<open>'23505'\<close> that is named \<^verbatim>\<open>'ValidationError'\<close> gets the 400
  validation problem, not the 409.
\<close>

theorem code_23505_on_validation_error_counterexample:
  "errorHandler (JObj [(''name'', JStr ''ValidationError''), (''code'', JStr ''23505'')])
      recipes_request fresh_response
   = Responded (sent (JNum 400)
       (problem ''https://nutrition-app.com/validation-error'' ''Validation Error'' 400
          ''Request validation failed'' (url recipes_request) @ [(''errors'', JUndefined)])
       fresh_response)
   \<and> get_prop (JObj [(''name'', JStr ''ValidationError''), (''code'', JStr ''23505'')]) ''code''
      = Inr (JStr ''23505'')"
  by (simp add: errorHandler_def problemDetail_def respond_defs
      fresh_response_def recipes_request_def problem_def obj_get_def)


text \<open>
  Claim C7. If the response headers have already been sent, \<open>errorHandler\<close> writes no
  body, sets no status and no content type (the response is unchanged) and hands the
  error unchanged to the next error handler.
\<close>

theorem headers_sent_forwards:
  assumes "headersSent res"
  shows "errorHandler err req res = Forwarded err res"
  using assms by (simp add: errorHandler_def)

text \<open>The theorem at a response that has already been sent.\<close>

theorem headers_sent_forwards_witness:
  "errorHandler (JObj [(''name'', JStr ''Error'')]) recipes_request
     (sent (JNum 200) [(''ok'', JBool True)] fresh_response)
   = Forwarded (JObj [(''name'', JStr ''Error'')])
       (sent (JNum 200) [(''ok'', JBool True)] fresh_response)"
proof -
  have "headersSent (sent (JNum 200) [(''ok'', JBool True)] fresh_response)"
    by (simp add: sent_def)
  then show ?thesis
    by (rule headers_sent_forwards)
qed

section \<open>Claims about validation, search and idempotency\<close>

lemma ValidationError_body:
  assumes "\<not> headersSent res"
  shows "errorHandler (ValidationError vs) req res =
     Responded (sent (JNum 400)
       (problem ''https://nutrition-app.com/validation-error'' ''Validation Error'' 400
          ''Request validation failed'' (url req) @ [(''errors'', JArr (map violation_json vs))]) res)"
proof -
  have "problemDetail (ValidationError vs) req =
      Inr (problem ''https://nutrition-app.com/validation-error'' ''Validation Error'' 400
             ''Request validation failed'' (url req)
           @ [(''errors'', if truthy JUndefined then JUndefined else JArr (map violation_json vs))])"
    by (rule problemDetail_validation[where n = "JStr ''ValidationError''"])
       (simp_all add: ValidationError_def obj_get_def)
  then have "problemDetail (ValidationError vs) req =
      Inr (problem ''https://nutrition-app.com/validation-error'' ''Validation Error'' 400
             ''Request validation failed'' (url req) @ [(''errors'', JArr (map violation_json vs))])"
    by simp
  with assms show ?thesis
    by (rule errorHandler_problem[where n = 400]) simp_all
qed

lemma in_set_mapI: "x \<in> set xs \<Longrightarrow> f x \<in> set (map f xs)"
  by simp

lemma obj_get_errors:
  "obj_get (problem ty ti st de inst @ [(''errors'', e)]) ''errors'' = e"
  by (simp add: obj_get_def problem_def)


text \<open>
  Claim C4. For every validation failure, also one that comprises several violations
  (a negative \<^verbatim>\<open>protein_min\<close> together with \<^verbatim>\<open>calories_min > calories_max\<close> and
  an unknown taxonomy token), the error response enumerates every violation
  individually, never only the first one found: the response is a 400 whose
  \<^verbatim>\<open>errors\<close> array has one entry per violation, and each violated rule has its entry.
\<close>

theorem every_violation_is_reported:
  assumes "\<not> headersSent res" "validate tx sq \<noteq> []"
  shows "\<exists>r b errs.
           list_recipes tx accepts score corpus sq req res = Inl (Responded r)
           \<and> statusCode r = JNum 400 \<and> body r = Some b \<and> obj_get b ''errors'' = JArr errs
           \<and> length errs = length (validate tx sq)
           \<and> ((\<exists>p. protein_min sq = Some p \<and> p < 0) \<longrightarrow>
                  violation_json ProteinMinNegative \<in> set errs)
           \<and> ((\<exists>lo hi. calories_min sq = Some lo \<and> calories_max sq = Some hi \<and> hi < lo) \<longrightarrow>
                  violation_json CaloriesMinAboveMax \<in> set errs)
           \<and> (\<forall>t \<in> set (diets sq). t \<notin> set (tax_diets tx) \<longrightarrow>
                  violation_json (UnknownDiet t) \<in> set errs)
           \<and> (\<forall>t \<in> set (allergens sq). t \<notin> set (tax_allergens tx) \<longrightarrow>
                  violation_json (UnknownAllergen t) \<in> set errs)
           \<and> (\<forall>t \<in> set (cuisines sq). t \<notin> set (tax_cuisines tx) \<longrightarrow>
                  violation_json (UnknownCuisine t) \<in> set errs)"
proof -
  let ?vs = "validate tx sq"
  let ?errs = "map violation_json ?vs"
  let ?b = "problem ''https://nutrition-app.com/validation-error'' ''Validation Error'' 400
          ''Request validation failed'' (url req) @ [(''errors'', JArr ?errs)]"
  let ?r = "sent (JNum 400) ?b res"
  from assms(2) obtain v vs' where vs: "?vs = v # vs'"
    by (cases ?vs) simp_all
  have run: "list_recipes tx accepts score corpus sq req res = Inl (Responded ?r)"
    using ValidationError_body[OF assms(1), of ?vs req]
    by (simp add: list_recipes_def vs)
  have r: "statusCode ?r = JNum 400" "body ?r = Some ?b"
    by (simp_all add: sent_def)
  have e: "obj_get ?b ''errors'' = JArr ?errs"
    by (rule obj_get_errors)
  have p: "ProteinMinNegative \<in> set ?vs" if "\<exists>p. protein_min sq = Some p \<and> p < 0"
    using that by (auto simp: validate_def)
  have c: "CaloriesMinAboveMax \<in> set ?vs"
    if "\<exists>lo hi. calories_min sq = Some lo \<and> calories_max sq = Some hi \<and> hi < lo"
    using that by (auto simp: validate_def)
  have d: "UnknownDiet t \<in> set ?vs" if "t \<in> set (diets sq)" "t \<notin> set (tax_diets tx)" for t
    using that by (simp add: validate_def)
  have a: "UnknownAllergen t \<in> set ?vs" if "t \<in> set (allergens sq)" "t \<notin> set (tax_allergens tx)" for t
    using that by (simp add: validate_def)
  have u: "UnknownCuisine t \<in> set ?vs" if "t \<in> set (cuisines sq)" "t \<notin> set (tax_cuisines tx)" for t
    using that by (simp add: validate_def)
  show ?thesis
  proof (intro exI[of _ ?r] exI[of _ ?b] exI[of _ ?errs] conjI impI ballI)
    show "list_recipes tx accepts score corpus sq req res = Inl (Responded ?r)" by (rule run)
    show "statusCode ?r = JNum 400" by (rule r(1))
    show "body ?r = Some ?b" by (rule r(2))
    show "obj_get ?b ''errors'' = JArr ?errs" by (rule e)
    show "length ?errs = length ?vs" by simp
  next
    assume "\<exists>p. protein_min sq = Some p \<and> p < 0"
    then show "violation_json ProteinMinNegative \<in> set ?errs"
      by (intro in_set_mapI p)
  next
    assume "\<exists>lo hi. calories_min sq = Some lo \<and> calories_max sq = Some hi \<and> hi < lo"
    then show "violation_json CaloriesMinAboveMax \<in> set ?errs"
      by (intro in_set_mapI c)
  next
    fix t assume "t \<in> set (diets sq)" "t \<notin> set (tax_diets tx)"
    then show "violation_json (UnknownDiet t) \<in> set ?errs"
      by (intro in_set_mapI d)
  next
    fix t assume "t \<in> set (allergens sq)" "t \<notin> set (tax_allergens tx)"
    then show "violation_json (UnknownAllergen t) \<in> set ?errs"
      by (intro in_set_mapI a)
  next
    fix t assume "t \<in> set (cuisines sq)" "t \<notin> set (tax_cuisines tx)"
    then show "violation_json (UnknownCuisine t) \<in> set ?errs"
      by (intro in_set_mapI u)
  qed
qed

text \<open>The theorem at a query that breaks three rules at once.\<close>

theorem every_violation_is_reported_witness:
  "\<exists>r b errs.
     list_recipes \<lparr>tax_diets = [''vegan'', ''keto''], tax_allergens = [''sesame''], tax_cuisines = [''thai'']\<rparr>
       (\<lambda>r. True) (\<lambda>r. 0) [\<lparr>recipe_id = 1::nat, updated_at = 100\<rparr>]
       \<lparr>diets = [''vegan'', ''paleoo''], allergens = [], cuisines = [], calories_min = Some 500,
        calories_max = Some 100, protein_min = Some (- 1), limit = None, offset = None\<rparr>
       recipes_request fresh_response = Inl (Responded r)
     \<and> statusCode r = JNum 400 \<and> body r = Some b \<and> obj_get b ''errors'' = JArr errs
     \<and> length errs = 3
     \<and> violation_json ProteinMinNegative \<in> set errs
     \<and> violation_json CaloriesMinAboveMax \<in> set errs
     \<and> violation_json (UnknownDiet ''paleoo'') \<in> set errs"
proof -
  let ?tx = "\<lparr>tax_diets = [''vegan'', ''keto''], tax_allergens = [''sesame''], tax_cuisines = [''thai'']\<rparr>"
  let ?sq = "\<lparr>diets = [''vegan'', ''paleoo''], allergens = [], cuisines = [], calories_min = Some 500,
        calories_max = Some 100, protein_min = Some (- 1), limit = None, offset = None\<rparr>"
  have h: "\<not> headersSent fresh_response"
    by (simp add: fresh_response_def)
  have v: "validate ?tx ?sq = [ProteinMinNegative, CaloriesMinAboveMax, UnknownDiet ''paleoo'']"
    by (simp add: validate_def)
  then have n: "validate ?tx ?sq \<noteq> []" and l: "length (validate ?tx ?sq) = 3"
    by simp_all
  have p: "\<exists>p. protein_min ?sq = Some p \<and> p < 0"
    by simp
  have c: "\<exists>lo hi. calories_min ?sq = Some lo \<and> calories_max ?sq = Some hi \<and> hi < lo"
    by simp
  have d: "''paleoo'' \<in> set (diets ?sq)" "''paleoo'' \<notin> set (tax_diets ?tx)"
    by simp_all
  from every_violation_is_reported[OF h n, of "\<lambda>r. True" "\<lambda>r. 0" "[\<lparr>recipe_id = 1::nat, updated_at = 100\<rparr>]" recipes_request]
  obtain r b errs where
    "list_recipes ?tx (\<lambda>r. True) (\<lambda>r. 0) [\<lparr>recipe_id = 1::nat, updated_at = 100\<rparr>] ?sq
        recipes_request fresh_response = Inl (Responded r)"
    "statusCode r = JNum 400" "body r = Some b" "obj_get b ''errors'' = JArr errs"
    "length errs = length (validate ?tx ?sq)"
    "(\<exists>p. protein_min ?sq = Some p \<and> p < 0) \<longrightarrow> violation_json ProteinMinNegative \<in> set errs"
    "(\<exists>lo hi. calories_min ?sq = Some lo \<and> calories_max ?sq = Some hi \<and> hi < lo) \<longrightarrow>
        violation_json CaloriesMinAboveMax \<in> set errs"
    "\<forall>t \<in> set (diets ?sq). t \<notin> set (tax_diets ?tx) \<longrightarrow> violation_json (UnknownDiet t) \<in> set errs"
    by blast
  with p c d l show ?thesis
    by (intro exI[of _ r] exI[of _ b] exI[of _ errs]) (simp only: simp_thms)
qed

lemma rank_key_le_iff:
  "rank_key score a \<le> rank_key score b \<longleftrightarrow> ranks_before score a b"
  unfolding rank_key_def ranks_before_def by auto

lemma inj_on_rank_key:
  assumes "distinct (map recipe_id xs)"
  shows "inj_on (rank_key score) (set xs)"
proof (rule inj_onI)
  fix a b
  assume "a \<in> set xs" "b \<in> set xs" "rank_key score a = rank_key score b"
  then have "recipe_id a = recipe_id b" by (simp add: rank_key_def)
  with assms \<open>a \<in> set xs\<close> \<open>b \<in> set xs\<close> show "a = b"
    by (meson distinct_map inj_onD)
qed

lemma sorted_wrt_ranks_before:
  "sorted_wrt (ranks_before score) (sort_key (rank_key score) xs)"
proof -
  have "sorted (map (rank_key score) (sort_key (rank_key score) xs))"
    by (rule sorted_sort_key)
  then show ?thesis
    by (simp add: sorted_map rank_key_le_iff)
qed

lemma ranked_same:
  assumes "mset xs = mset ys" "distinct (map recipe_id xs)"
  shows "sort_key (rank_key score) (filter accepts xs) = sort_key (rank_key score) (filter accepts ys)"
proof (rule sort_key_eq_sort_key)
  from assms(1) have "mset (filter accepts xs) = filter_mset accepts (mset ys)"
    by (metis mset_filter)
  then show "mset (filter accepts xs) = mset (filter accepts ys)"
    by simp
  from assms(2) have "inj_on (rank_key score) (set xs)"
    by (rule inj_on_rank_key)
  then show "inj_on (rank_key score) (set (filter accepts xs))"
    by (rule inj_on_subset) simp
qed


text \<open>
  Claim C8. For a fixed corpus snapshot and a fixed query the search returns the same
  ordered list however the snapshot is enumerated: the order by composite score
  descending, then \<^verbatim>\<open>updated_at\<close> descending, then recipe identity ascending is total
  on recipes of distinct identity, and the page is sorted by it.
\<close>

theorem search_is_deterministic:
  assumes "mset corpus1 = mset corpus2" "distinct (map recipe_id corpus1)"
  shows "search_recipes accepts score sq corpus1 = search_recipes accepts score sq corpus2
       \<and> sorted_wrt (ranks_before score) (items (search_recipes accepts score sq corpus1))
       \<and> (\<forall>a b. recipe_id a \<noteq> recipe_id b \<longrightarrow>
             (ranks_before score a b \<longleftrightarrow> \<not> ranks_before score b a))"
proof (intro conjI allI impI)
  show "search_recipes accepts score sq corpus1 = search_recipes accepts score sq corpus2"
    unfolding search_recipes_def ranked_same[OF assms] ..
  have "sorted_wrt (ranks_before score)
          (take (effective_limit (limit sq)) (drop (effective_offset (offset sq))
             (sort_key (rank_key score) (filter accepts corpus1))))"
    by (intro sorted_wrt_take sorted_wrt_drop sorted_wrt_ranks_before)
  then show "sorted_wrt (ranks_before score) (items (search_recipes accepts score sq corpus1))"
    by (simp add: search_recipes_def Let_def)
next
  fix a b :: "('a, 'b) recipe_scheme"
  assume "recipe_id a \<noteq> recipe_id b"
  then show "ranks_before score a b \<longleftrightarrow> \<not> ranks_before score b a"
    unfolding ranks_before_def by auto
qed

text \<open>The theorem at two enumerations of a three-recipe snapshot with a score tie.\<close>

theorem search_is_deterministic_witness:
  "search_recipes (\<lambda>r. True) (\<lambda>r. if recipe_id r = (3::nat) then 2 else 1)
      \<lparr>diets = [], allergens = [], cuisines = [], calories_min = None, calories_max = None,
       protein_min = None, limit = None, offset = None\<rparr>
      [\<lparr>recipe_id = 1, updated_at = 100\<rparr>, \<lparr>recipe_id = 2, updated_at = 200\<rparr>,
       \<lparr>recipe_id = 3, updated_at = 50\<rparr>]
   = search_recipes (\<lambda>r. True) (\<lambda>r. if recipe_id r = (3::nat) then 2 else 1)
      \<lparr>diets = [], allergens = [], cuisines = [], calories_min = None, calories_max = None,
       protein_min = None, limit = None, offset = None\<rparr>
      [\<lparr>recipe_id = 3, updated_at = 50\<rparr>, \<lparr>recipe_id = 1, updated_at = 100\<rparr>,
       \<lparr>recipe_id = 2, updated_at = 200\<rparr>]
   \<and> items (search_recipes (\<lambda>r. True) (\<lambda>r. if recipe_id r = (3::nat) then 2 else 1)
      \<lparr>diets = [], allergens = [], cuisines = [], calories_min = None, calories_max = None,
       protein_min = None, limit = None, offset = None\<rparr>
      [\<lparr>recipe_id = 1, updated_at = 100\<rparr>, \<lparr>recipe_id = 2, updated_at = 200\<rparr>,
       \<lparr>recipe_id = 3, updated_at = 50\<rparr>])
     = [\<lparr>recipe_id = 3, updated_at = 50\<rparr>, \<lparr>recipe_id = 2, updated_at = 200\<rparr>,
        \<lparr>recipe_id = 1, updated_at = 100\<rparr>]"
proof -
  let ?c1 = "[\<lparr>recipe_id = 1::nat, updated_at = 100\<rparr>, \<lparr>recipe_id = 2, updated_at = 200\<rparr>,
       \<lparr>recipe_id = 3, updated_at = 50\<rparr>]"
  let ?c2 = "[\<lparr>recipe_id = 3::nat, updated_at = 50\<rparr>, \<lparr>recipe_id = 1, updated_at = 100\<rparr>,
       \<lparr>recipe_id = 2, updated_at = 200\<rparr>]"
  have m: "mset ?c1 = mset ?c2"
    by simp
  have d: "distinct (map recipe_id ?c1)"
    by simp
  have i: "items (search_recipes (\<lambda>r. True) (\<lambda>r. if recipe_id r = (3::nat) then 2 else 1)
      \<lparr>diets = [], allergens = [], cuisines = [], calories_min = None, calories_max = None,
       protein_min = None, limit = None, offset = None\<rparr> ?c1)
     = [\<lparr>recipe_id = 3, updated_at = 50\<rparr>, \<lparr>recipe_id = 2, updated_at = 200\<rparr>,
        \<lparr>recipe_id = 1, updated_at = 100\<rparr>]"
    by (simp add: search_recipes_def rank_key_def effective_limit_def effective_offset_def
        DEFAULT_LIMIT_def)
  from search_is_deterministic[OF m d] i show ?thesis
    by blast
qed


lemma execute_fresh:
  assumes "store k = None \<or> (\<exists>rec. store k = Some rec \<and> expired now rec)"
  shows "execute now (Some k) who fp operation (store, s) =
     (Executed (fst (operation s)),
      store(k \<mapsto> \<lparr>requester = who, fingerprint = fp, stored = fst (operation s), created_at = now\<rparr>),
      snd (operation s))"
  using assms by (auto simp: execute_def Let_def split: prod.splits option.splits)

lemma execute_live:
  assumes "store k = Some rec" "\<not> expired now rec"
  shows "execute now (Some k) who fp operation (store, s) =
     (if requester rec = who \<and> fingerprint rec = fp then (Replayed (stored rec), store, s)
      else (Conflict, store, s))"
  using assms by (simp add: execute_def Let_def split: prod.splits)

text \<open>
  Claim C9, as amended. For every mutating request that the gate executes under an
  idempotency key and that the same requester issues again with that key less than 24
  hours after the first was recorded: with the same fingerprint the second call returns
  the stored result of the first and runs nothing, so the state is the one after a single
  run of the first operation; with a different fingerprint it yields a conflict, and
  again nothing runs.
\<close>

theorem replay_within_window:
  assumes first: "execute t1 (Some k) who fp op1 (store, s) = (Executed r1, store1, s1)"
    and window: "t2 < t1 + REPLAY_WINDOW"
  shows "execute t2 (Some k) who fp op2 (store1, s1) = (Replayed r1, store1, s1)
       \<and> (fp' \<noteq> fp \<longrightarrow> execute t2 (Some k) who fp' op2 (store1, s1) = (Conflict, store1, s1))
       \<and> r1 = fst (op1 s) \<and> s1 = snd (op1 s)"
proof -
  have fresh: "store k = None \<or> (\<exists>rec. store k = Some rec \<and> expired t1 rec)"
  proof (rule ccontr)
    assume "\<not> ?thesis"
    then obtain rec where a: "store k = Some rec" and b: "\<not> expired t1 rec"
      by (cases "store k") auto
    have "execute t1 (Some k) who fp op1 (store, s) =
        (if requester rec = who \<and> fingerprint rec = fp then (Replayed (stored rec), store, s)
         else (Conflict, store, s))"
      using a b by (rule execute_live)
    with first show False
      by (simp split: if_splits)
  qed
  let ?rec = "\<lparr>requester = who, fingerprint = fp, stored = fst (op1 s), created_at = t1\<rparr>"
  have "execute t1 (Some k) who fp op1 (store, s) =
     (Executed (fst (op1 s)), store(k \<mapsto> ?rec), snd (op1 s))"
    using fresh by (rule execute_fresh)
  with first have "(Executed r1, store1, s1) =
     (Executed (fst (op1 s)), store(k \<mapsto> ?rec), snd (op1 s))"
    by (rule trans[OF sym])
  then have r1: "r1 = fst (op1 s)" and s1: "s1 = snd (op1 s)" and st: "store1 = store(k \<mapsto> ?rec)"
    by blast+
  have look: "store1 k = Some ?rec"
    by (simp add: st)
  have live: "\<not> expired t2 ?rec"
    using window by (simp add: expired_def)
  have any: "execute t2 (Some k) who f op2 (store1, s1) =
      (if requester ?rec = who \<and> fingerprint ?rec = f then (Replayed (stored ?rec), store1, s1)
       else (Conflict, store1, s1))" for f
    using look live by (rule execute_live)
  have "execute t2 (Some k) who fp op2 (store1, s1) = (Replayed r1, store1, s1)"
    using any[of fp] by (simp add: r1)
  moreover have "execute t2 (Some k) who fp' op2 (store1, s1) = (Conflict, store1, s1)" if "fp' \<noteq> fp"
    using any[of fp'] that by simp
  ultimately show ?thesis
    using r1 s1 by blast
qed

text \<open>The theorem at a save issued at time 0 and again one hour later.\<close>

theorem replay_within_window_witness:
  "execute 3600 (Some (7::nat)) ''alice'' ''fp-save-42'' (\<lambda>n::nat. (''saved'', Suc n))
      (snd (execute 0 (Some 7) ''alice'' ''fp-save-42'' (\<lambda>n. (''saved'', Suc n)) (Map.empty, 0)))
     = (Replayed ''saved'',
        snd (execute 0 (Some 7) ''alice'' ''fp-save-42'' (\<lambda>n. (''saved'', Suc n)) (Map.empty, 0)))
   \<and> execute 3600 (Some (7::nat)) ''alice'' ''fp-save-43'' (\<lambda>n::nat. (''saved'', Suc n))
      (snd (execute 0 (Some 7) ''alice'' ''fp-save-42'' (\<lambda>n. (''saved'', Suc n)) (Map.empty, 0)))
     = (Conflict,
        snd (execute 0 (Some 7) ''alice'' ''fp-save-42'' (\<lambda>n. (''saved'', Suc n)) (Map.empty, 0)))
   \<and> snd (snd (execute 0 (Some (7::nat)) ''alice'' ''fp-save-42'' (\<lambda>n::nat. (''saved'', Suc n)) (Map.empty, 0)))
     = 1"
proof -
  let ?op = "\<lambda>n::nat. (''saved'', Suc n)"
  let ?st = "[7::nat \<mapsto> \<lparr>requester = ''alice'', fingerprint = ''fp-save-42'', stored = ''saved'', created_at = 0\<rparr>]"
  have first: "execute 0 (Some (7::nat)) ''alice'' ''fp-save-42'' ?op (Map.empty, 0)
     = (Executed ''saved'', ?st, 1)"
    by (simp add: execute_def)
  have window: "(3600::int) < 0 + REPLAY_WINDOW"
    by (simp add: REPLAY_WINDOW_def)
  have ne: "''fp-save-43'' \<noteq> ''fp-save-42''"
    by simp
  from replay_within_window[OF first window, of ?op "''fp-save-43''"] ne
  show ?thesis
    unfolding first by simp
qed

text \<open>
  Claim C9 as stated fails: the record expires after the replay window, so the same
  request with the same key 48 hours later runs the operation a second time.
\<close>

theorem replay_after_expiry_counterexample:
  "execute (2 * REPLAY_WINDOW) (Some (7::nat)) ''alice'' ''fp-save-42'' (\<lambda>n::nat. (''saved'', Suc n))
      (snd (execute 0 (Some 7) ''alice'' ''fp-save-42'' (\<lambda>n. (''saved'', Suc n)) (Map.empty, 0)))
     = (Executed ''saved'',
        [7 \<mapsto> \<lparr>requester = ''alice'', fingerprint = ''fp-save-42'', stored = ''saved'',
               created_at = 2 * REPLAY_WINDOW\<rparr>],
        2)"
  by (simp add: execute_def expired_def REPLAY_WINDOW_def)

text \<open>
  Claim C10. For every search request the pagination limit defaults to 50 and has the
  hard maximum 200; a request whose limit exceeds the maximum is accepted with the limit
  clamped to 200, not rejected; and the limit the response reports is the effective limit
  actually used: the page is exactly that many rows of the ranked matches from the
  reported offset on (or all that are left).
\<close>

theorem limit_defaults_and_clamps:
  assumes "validate tx sq = []"
  shows "\<exists>page. list_recipes tx accepts score corpus (sq\<lparr>limit := requested\<rparr>) req res = Inr page
           \<and> page_limit page = (case requested of None \<Rightarrow> 50 | Some l \<Rightarrow> min l 200)
           \<and> page_limit page \<le> 200
           \<and> items page = take (page_limit page) (drop (page_offset page)
                 (sort_key (rank_key score) (filter accepts corpus)))
           \<and> length (items page) = min (page_limit page) (total page - page_offset page)"
proof -
  have "validate tx (sq\<lparr>limit := requested\<rparr>) = validate tx sq"
    by (simp add: validate_def cong: option.case_cong)
  with assms have v: "validate tx (sq\<lparr>limit := requested\<rparr>) = []"
    by simp
  let ?page = "search_recipes accepts score (sq\<lparr>limit := requested\<rparr>) corpus"
  have "list_recipes tx accepts score corpus (sq\<lparr>limit := requested\<rparr>) req res = Inr ?page"
    by (simp add: list_recipes_def v)
  moreover have l: "page_limit ?page = (case requested of None \<Rightarrow> 50 | Some l \<Rightarrow> min l 200)"
    by (simp add: search_recipes_def Let_def effective_limit_def DEFAULT_LIMIT_def MAX_LIMIT_def
        split: option.splits)
  moreover have "page_limit ?page \<le> 200"
    unfolding l by (simp split: option.splits)
  moreover have "items ?page = take (page_limit ?page) (drop (page_offset ?page)
                 (sort_key (rank_key score) (filter accepts corpus)))"
    by (simp add: search_recipes_def Let_def)
  moreover have "length (items ?page) = min (page_limit ?page) (total ?page - page_offset ?page)"
    by (simp add: search_recipes_def Let_def min.commute)
  ultimately show ?thesis
    by blast
qed

text \<open>The theorem at a valid query that asks for 5000 rows.\<close>

theorem limit_defaults_and_clamps_witness:
  "\<exists>page. list_recipes \<lparr>tax_diets = [''vegan''], tax_allergens = [''sesame''], tax_cuisines = [''thai'']\<rparr>
        (\<lambda>r. True) (\<lambda>r. 0) [\<lparr>recipe_id = 1::nat, updated_at = 100\<rparr>]
        (\<lparr>diets = [''vegan''], allergens = [], cuisines = [], calories_min = None, calories_max = None,
          protein_min = Some 20, limit = None, offset = None\<rparr>\<lparr>limit := Some 5000\<rparr>)
        recipes_request fresh_response = Inr page
      \<and> page_limit page = 200
      \<and> items page = take (page_limit page) (drop (page_offset page)
            (sort_key (rank_key (\<lambda>r. 0)) (filter (\<lambda>r. True) [\<lparr>recipe_id = 1::nat, updated_at = 100\<rparr>])))"
proof -
  have "validate \<lparr>tax_diets = [''vegan''], tax_allergens = [''sesame''], tax_cuisines = [''thai'']\<rparr>
     \<lparr>diets = [''vegan''], allergens = [], cuisines = [], calories_min = None, calories_max = None,
          protein_min = Some 20, limit = None, offset = None\<rparr> = []"
    by (simp add: validate_def)
  from limit_defaults_and_clamps[OF this, of "\<lambda>r. True" "\<lambda>r. 0" "[\<lparr>recipe_id = 1::nat, updated_at = 100\<rparr>]"
      "Some 5000" recipes_request fresh_response]
  obtain page where "list_recipes \<lparr>tax_diets = [''vegan''], tax_allergens = [''sesame''], tax_cuisines = [''thai'']\<rparr>
        (\<lambda>r. True) (\<lambda>r. 0) [\<lparr>recipe_id = 1::nat, updated_at = 100\<rparr>]
        (\<lparr>diets = [''vegan''], allergens = [], cuisines = [], calories_min = None, calories_max = None,
          protein_min = Some 20, limit = None, offset = None\<rparr>\<lparr>limit := Some 5000\<rparr>)
        recipes_request fresh_response = Inr page"
     "page_limit page = (case Some (5000::nat) of None \<Rightarrow> 50 | Some l \<Rightarrow> min l 200)"
     "items page = take (page_limit page) (drop (page_offset page)
            (sort_key (rank_key (\<lambda>r. 0)) (filter (\<lambda>r. True) [\<lparr>recipe_id = 1::nat, updated_at = 100\<rparr>])))"
    by blast
  moreover from this(2) have "page_limit page = 200"
    by simp
  ultimately show ?thesis
    by blast
qed

end
